theory Spec2Isabelle
  imports Main "HOL-Library.Sublist"
begin

section \<open>Strings, exceptions and the world outside the program\<close>

text \<open>
  A Python \<open>str\<close> is modelled by its UTF-8 encoding, a \<open>string\<close> of bytes. The braces,
  dots, brackets, colons and exclamation marks that \<open>str.format\<close> looks for are ASCII, and
  no byte of a multi-byte UTF-8 sequence is ASCII, so scanning bytes finds the same markup
  as scanning code points.

  \<open>str.lower\<close> and \<open>str.strip\<close> depend on the Unicode tables. The functions that call
  them take them as the parameters \<open>lc\<close> and \<open>strip\<close>, so every theorem holds for Python's
  own functions; \<open>ascii_lower\<close> and \<open>ascii_strip\<close> below are what they do on ASCII text.
\<close>

definition ascii_lower :: "string \<Rightarrow> string" where
  "ascii_lower s =
     map (\<lambda>c. let n = (of_char c :: nat) in if 65 \<le> n \<and> n \<le> 90 then char_of (n + 32) else c) s"

definition ascii_space :: "char \<Rightarrow> bool" where
  "ascii_space c =
     (let n = (of_char c :: nat) in n = 32 \<or> (9 \<le> n \<and> n \<le> 13) \<or> (28 \<le> n \<and> n \<le> 31))"

definition ascii_strip :: "string \<Rightarrow> string" where
  "ascii_strip s = rev (dropWhile ascii_space (rev (dropWhile ascii_space s)))"

text \<open>
  The exceptions that leave a function of the program. \<open>FormatError\<close> stands for whatever
  \<open>str.format\<close> raises on a template: a \<open>ValueError\<close> for a brace without its partner, a
  \<open>KeyError\<close> or \<open>IndexError\<close> for a replacement field that is not the keyword
  \<open>code_diff\<close>, or the exception of an attribute, index, conversion or format
  specification that cannot be applied to the payload.
\<close>

datatype py_exception = ValueError string | FormatError

text \<open>
  \<open>template.format(code_diff=code)\<close>, following CPython's markup iterator: literal text is
  copied, \<open>{{\<close> and \<open>}}\<close> give one brace, a lone \<open>}\<close> and a \<open>{\<close> at the end raise, and a
  replacement field is read up to its closing brace. The only keyword argument is
  \<open>code_diff\<close> and there is no positional argument, so a field with any other name raises.

  A field may go on after the name \<open>code_diff\<close> with an attribute (\<open>.\<close>), an index
  (\<open>[\<close>), a conversion (\<open>!\<close>) or a format specification (\<open>:\<close>). What Python makes
  of the template from there on, for a given payload, is the parameter \<open>fr\<close>: applied to
  the rest of the template, from that character on, and the payload, it gives the text
  that \<open>str.format\<close> produces from there to the end, or the exception it raises. Every
  function that fills a template takes \<open>fr\<close>, so every theorem holds for Python's own
  treatment of such fields.
\<close>

type_synonym format_rest = "string \<Rightarrow> string \<Rightarrow> py_exception + string"

datatype scan = Literal | Field string

definition emit :: "string \<Rightarrow> py_exception + string \<Rightarrow> py_exception + string" where
  "emit s r = (case r of Inl e \<Rightarrow> Inl e | Inr t \<Rightarrow> Inr (s @ t))"

fun fill :: "format_rest \<Rightarrow> scan \<Rightarrow> string \<Rightarrow> string \<Rightarrow> py_exception + string" where
  "fill fr Literal [] code = Inr []"
| "fill fr Literal (c # cs) code =
     (if c = CHR ''{'' then
        (case cs of
           [] \<Rightarrow> Inl FormatError
         | d # ds \<Rightarrow>
             if d = CHR ''{'' then emit [c] (fill fr Literal ds code)
             else fill fr (Field []) cs code)
      else if c = CHR ''}'' then
        (case cs of
           [] \<Rightarrow> Inl FormatError
         | d # ds \<Rightarrow>
             if d = CHR ''}'' then emit [c] (fill fr Literal ds code)
             else Inl FormatError)
      else emit [c] (fill fr Literal cs code))"
| "fill fr (Field name) [] code = Inl FormatError"
| "fill fr (Field name) (c # cs) code =
     (if c = CHR ''}'' then
        (if name = ''code_diff'' then emit code (fill fr Literal cs code) else Inl FormatError)
      else if c = CHR ''{'' then Inl FormatError
      else if c \<in> set ''.[!:'' then
        (if name = ''code_diff'' then fr (c # cs) code else Inl FormatError)
      else fill fr (Field (name @ [c])) cs code)"

definition py_format :: "format_rest \<Rightarrow> string \<Rightarrow> string \<Rightarrow> py_exception + string" where
  "py_format fr template code = fill fr Literal template code"

text \<open>\<open>str(n)\<close> for a length: the decimal digits.\<close>

fun str_nat :: "nat \<Rightarrow> string" where
  "str_nat n =
     (if n < 10 then [''0123456789'' ! n]
      else str_nat (n div 10) @ [''0123456789'' ! (n mod 10)])"

text \<open>
  The configuration dictionary built by \<open>load_config\<close>. The temperature is a float that the
  program only hands on to the endpoint; its type is left open.
\<close>

record 'f config =
  google_api_key :: string
  model_name :: string
  max_tokens :: int
  temperature :: 'f

text \<open>
  What the program does to the outside, in order: the lines it prints (each \<open>print\<close> of the
  source is one constructor, carrying the values the line is formatted from) and the
  prompts it sends to \<open>model.generate_content\<close>.
\<close>

datatype event =
    GeneratingTemplate string
  | ErrorGeneratingPrompt string
  | WarningNoMatch "string list"
  | StartingReview nat
  | RunningReview string
  | GenerateContent string

record 'w world =
  trace :: "event list"
  ext :: 'w

text \<open>
  The text-generation endpoint is any function of its own state \<open>ext\<close>, the configuration
  and the prompt. \<open>Inr text\<close> is the value of \<open>response.text\<close>; \<open>Inl msg\<close> is an
  \<open>Exception\<close> raised inside the \<open>try\<close> block, with \<open>str(e) = msg\<close>.
\<close>

type_synonym ('f, 'w) endpoint = "'w \<Rightarrow> 'f config \<Rightarrow> string \<Rightarrow> (string + string) \<times> 'w"

definition print :: "event \<Rightarrow> 'w world \<Rightarrow> 'w world" where
  "print e st = st\<lparr>trace := trace st @ [e]\<rparr>"

definition generate_content ::
  "('f, 'w) endpoint \<Rightarrow> 'f config \<Rightarrow> string \<Rightarrow> 'w world \<Rightarrow> (string + string) \<times> 'w world" where
  "generate_content ep cfg prompt st =
     (case ep (ext st) cfg prompt of
        (r, w) \<Rightarrow> (r, st\<lparr>trace := trace st @ [GenerateContent prompt], ext := w\<rparr>))"

section \<open>Personas\<close>

definition meta_prompt :: "string \<Rightarrow> string" where
  "meta_prompt description =
     ''You are  a helfpul AI assistant skilled in prompt engineering\<newline>'' @
     ''Given this persona description, generate a step by step code review prompt template.'' @
     ''Persona description: '' @ description @ ''\<newline>\<newline>'' @
     ''Make sure to include sections like focus areas, methodology, output format, and examples.''"

definition generate_persona_prompt ::
  "(string \<Rightarrow> string) \<Rightarrow> ('f, 'w) endpoint \<Rightarrow> string \<Rightarrow> 'f config \<Rightarrow> 'w world \<Rightarrow> string \<times> 'w world" where
  "generate_persona_prompt strip ep description cfg st =
     (case generate_content ep cfg (meta_prompt description) st of
        (Inr text, st') \<Rightarrow> (strip text, st')
      | (Inl msg, st') \<Rightarrow> ([], print (ErrorGeneratingPrompt msg) st'))"

record 'f CodeReviewPersona =
  name :: string
  focus :: string
  config :: "'f config"
  prompt_template :: string

text \<open>
  \<open>self.model\<close> is \<open>GenerativeModel(config['model_name'])\<close>: the endpoint applied to the
  persona's configuration. An argument that Python takes as false, \<open>None\<close> or the empty
  string, is not \<open>truthy\<close>.
\<close>

fun truthy :: "string option \<Rightarrow> bool" where
  "truthy None = False"
| "truthy (Some s) = (s \<noteq> [])"

fun str_of :: "string option \<Rightarrow> string" where
  "str_of None = []"
| "str_of (Some s) = s"

definition CodeReviewPersona_init ::
  "(string \<Rightarrow> string) \<Rightarrow> ('f, 'w) endpoint \<Rightarrow> string \<Rightarrow> 'f config \<Rightarrow> string \<Rightarrow>
   string option \<Rightarrow> string option \<Rightarrow> 'w world \<Rightarrow> (py_exception + 'f CodeReviewPersona) \<times> 'w world" where
  "CodeReviewPersona_init strip ep nm cfg fc template description st =
     (if truthy template then
        (Inr \<lparr>name = nm, focus = fc, config = cfg, prompt_template = str_of template\<rparr>, st)
      else if truthy description then
        (case generate_persona_prompt strip ep (str_of description) cfg
                (print (GeneratingTemplate nm) st) of
           (t, st') \<Rightarrow> (Inr \<lparr>name = nm, focus = fc, config = cfg, prompt_template = t\<rparr>, st'))
      else
        (Inl (ValueError ''Either prompt template or description must be provided.''), st))"

record review_dict =
  persona :: string
  focus :: string
  review :: string
  status :: string

definition CodeReviewPersona_review_code ::
  "format_rest \<Rightarrow> ('f, 'w) endpoint \<Rightarrow> 'f CodeReviewPersona \<Rightarrow> string \<Rightarrow> 'w world \<Rightarrow>
   (py_exception + review_dict) \<times> 'w world" where
  "CodeReviewPersona_review_code fr ep self code_diff st =
     (case py_format fr (prompt_template self) code_diff of
        Inl e \<Rightarrow> (Inl e, st)
      | Inr full_prompt \<Rightarrow>
          (case generate_content ep (config self) full_prompt st of
             (Inr text, st') \<Rightarrow>
               (Inr \<lparr>persona = name self, focus = CodeReviewPersona.focus self,
                     review = text, status = ''success''\<rparr>, st')
           | (Inl msg, st') \<Rightarrow>
               (Inr \<lparr>persona = name self, focus = CodeReviewPersona.focus self,
                     review = ''Error during review: '' @ msg, status = ''error''\<rparr>, st')))"

section \<open>The engine\<close>

text \<open>
  The two built-in templates of \<open>_initialize_personas\<close>. Each is one string literal in the
  source; here the text before the code slot and the text after it are named, and the
  template is the three parts in a row.
\<close>

definition code_quality_before :: string where
  "code_quality_before =
     ''You are a Senior Software Engineer specializing in code quality assessment with extensive '' @
     ''experience in enterprise software development. Your responsibility is to conduct thorough '' @
     ''maintainability and best practices analysis.\<newline>'' @
     ''\<newline>'' @
     ''**Analysis Methodology:**\<newline>'' @
     ''Execute your review using the following systematic approach:\<newline>'' @
     ''1. Structural Assessment: Evaluate function complexity, nesting depth, and code organization\<newline>'' @
     ''2. Naming Convention Analysis: Assess variable, function, and class naming clarity\<newline>'' @
     ''3. Best Practices Compliance: Verify adherence to language-specific standards and patterns\<newline>'' @
     ''4. Maintainability Impact Assessment: Determine long-term implications of current implementation\<newline>'' @
     ''\<newline>'' @
     ''Code Under Review:\<newline>''"

definition code_quality_after :: string where
  "code_quality_after =
     ''\<newline>'' @
     ''\<newline>'' @
     ''**Required Output Format:**\<newline>'' @
     ''For each identified issue, provide:\<newline>'' @
     ''1. SEVERITY CLASSIFICATION ('' @ [CHR 0xF0, CHR 0x9F, CHR 0x94, CHR 0xB4] @ '' Critical, '' @ [CHR 0xF0, CHR 0x9F, CHR 0x9F, CHR 0xA1] @ '' Warning, '' @ [CHR 0xE2, CHR 0x84, CHR 0xB9, CHR 0xEF, CHR 0xB8, CHR 0x8F] @ '' Info) with CONFIDENCE LEVEL (0-100%)\<newline>'' @
     ''2. Detailed technical explanation of the maintainability concern\<newline>'' @
     ''3. Business impact assessment and recommended remediation steps\<newline>'' @
     ''4. Complete code example demonstrating the proposed solution\<newline>'' @
     ''5. Knowledge validation question related to the underlying software engineering principle\<newline>'' @
     ''\<newline>'' @
     ''Maintain professional technical standards and provide actionable recommendations.''"

definition code_quality_template :: string where
  "code_quality_template = code_quality_before @ ''{code_diff}'' @ code_quality_after"

definition bug_hunter_before :: string where
  "bug_hunter_before =
     ''You are a Senior Quality Assurance Engineer and Security Specialist with expertise in identifying '' @
     ''software defects and vulnerability patterns. Your mandate is to conduct comprehensive defect '' @
     ''analysis and risk assessment.\<newline>'' @
     ''\<newline>'' @
     ''**Systematic Defect Analysis Process:**\<newline>'' @
     ''Apply the following structured methodology:\<newline>'' @
     ''1. Input Validation Assessment: Analyze handling of null, empty, and malformed inputs\<newline>'' @
     ''2. Exception Handling Evaluation: Verify comprehensive error management and recovery\<newline>'' @
     ''3. Resource Management Review: Assess memory usage, connection handling, and cleanup procedures\<newline>'' @
     ''4. Logic Correctness Verification: Identify algorithmic errors and boundary condition failures\<newline>'' @
     ''5. Concurrency Safety Analysis: Evaluate thread safety and race condition susceptibility\<newline>'' @
     ''\<newline>'' @
     ''Code Under Review:\<newline>''"

definition bug_hunter_after :: string where
  "bug_hunter_after =
     ''\<newline>'' @
     ''\<newline>'' @
     ''**Required Output Format:**\<newline>'' @
     ''For each identified defect, provide:\<newline>'' @
     ''1. SEVERITY CLASSIFICATION ('' @ [CHR 0xF0, CHR 0x9F, CHR 0x94, CHR 0xB4] @ '' Critical, '' @ [CHR 0xF0, CHR 0x9F, CHR 0x9F, CHR 0xA1] @ '' Warning, '' @ [CHR 0xE2, CHR 0x84, CHR 0xB9, CHR 0xEF, CHR 0xB8, CHR 0x8F] @ '' Info) with CONFIDENCE ASSESSMENT (0-100%)\<newline>'' @
     ''2. Defect category and specific failure conditions\<newline>'' @
     ''3. Security implications and potential exploitation vectors\<newline>'' @
     ''4. Detailed reproduction steps for verification\<newline>'' @
     ''5. Complete remediation implementation with defensive programming practices\<newline>'' @
     ''6. Quality assurance testing recommendations\<newline>'' @
     ''\<newline>'' @
     ''Execute thorough analysis maintaining enterprise-grade quality standards.''"

definition bug_hunter_template :: string where
  "bug_hunter_template = bug_hunter_before @ ''{code_diff}'' @ bug_hunter_after"

record 'f CodeReviewEngine =
  config :: "'f config"
  personas :: "'f CodeReviewPersona list"

definition initialize_personas ::
  "(string \<Rightarrow> string) \<Rightarrow> ('f, 'w) endpoint \<Rightarrow> 'f config \<Rightarrow> 'w world \<Rightarrow>
   (py_exception + 'f CodeReviewPersona list) \<times> 'w world" where
  "initialize_personas strip ep cfg st =
     (case CodeReviewPersona_init strip ep ''Code Quality Specialist'' cfg
             ''Code maintainability and best practices'' (Some code_quality_template) None st of
        (Inl e, st1) \<Rightarrow> (Inl e, st1)
      | (Inr p1, st1) \<Rightarrow>
          (case CodeReviewPersona_init strip ep ''Bug Hunter'' cfg
                  ''Potential bugs and edge cases'' (Some bug_hunter_template) None st1 of
             (Inl e, st2) \<Rightarrow> (Inl e, st2)
           | (Inr p2, st2) \<Rightarrow> (Inr [p1, p2], st2)))"

definition CodeReviewEngine_init ::
  "(string \<Rightarrow> string) \<Rightarrow> ('f, 'w) endpoint \<Rightarrow> 'f config \<Rightarrow> 'w world \<Rightarrow>
   (py_exception + 'f CodeReviewEngine) \<times> 'w world" where
  "CodeReviewEngine_init strip ep cfg st =
     (case initialize_personas strip ep cfg st of
        (Inl e, st') \<Rightarrow> (Inl e, st')
      | (Inr ps, st') \<Rightarrow> (Inr \<lparr>config = cfg, personas = ps\<rparr>, st'))"

text \<open>
  \<open>main\<close>, lines 268 to 272: with a \<open>--description\<close> that Python takes as true, a persona
  built from it is appended to the engine's list.
\<close>

definition main_dynamic_persona ::
  "(string \<Rightarrow> string) \<Rightarrow> ('f, 'w) endpoint \<Rightarrow> 'f CodeReviewEngine \<Rightarrow> string \<Rightarrow> string \<Rightarrow>
   string option \<Rightarrow> 'w world \<Rightarrow> (py_exception + 'f CodeReviewEngine) \<times> 'w world" where
  "main_dynamic_persona strip ep engine nm fc description st =
     (if truthy description then
        (case CodeReviewPersona_init strip ep nm (CodeReviewEngine.config engine) fc None
                description st of
           (Inl e, st') \<Rightarrow> (Inl e, st')
         | (Inr p, st') \<Rightarrow> (Inr (engine\<lparr>personas := personas engine @ [p]\<rparr>), st'))
      else (Inr engine, st))"

text \<open>
  \<open>CodeReviewEngine.review_code\<close>. \<open>personas_to_run\<close> is the list comprehension of line
  171, \<open>run_personas\<close> the loop of lines 179 to 182 with \<open>reviews\<close> as its accumulator; an
  exception of \<open>persona.review_code\<close> leaves the loop and the method. The parameter
  \<open>file_path\<close> is never read and is left out.
\<close>

definition personas_to_run ::
  "(string \<Rightarrow> string) \<Rightarrow> 'f CodeReviewPersona list \<Rightarrow> string list \<Rightarrow> 'f CodeReviewPersona list" where
  "personas_to_run lc ps selected_personas =
     filter (\<lambda>p. lc (name p) \<in> set (map lc selected_personas)) ps"

fun run_personas ::
  "format_rest \<Rightarrow> ('f, 'w) endpoint \<Rightarrow> 'f CodeReviewPersona list \<Rightarrow> string \<Rightarrow> review_dict list \<Rightarrow> 'w world \<Rightarrow>
   (py_exception + review_dict list) \<times> 'w world" where
  "run_personas fr ep [] code_diff reviews st = (Inr reviews, st)"
| "run_personas fr ep (p # ps) code_diff reviews st =
     (case CodeReviewPersona_review_code fr ep p code_diff (print (RunningReview (name p)) st) of
        (Inl e, st') \<Rightarrow> (Inl e, st')
      | (Inr rv, st') \<Rightarrow> run_personas fr ep ps code_diff (reviews @ [rv]) st')"

definition CodeReviewEngine_review_code ::
  "format_rest \<Rightarrow> (string \<Rightarrow> string) \<Rightarrow> ('f, 'w) endpoint \<Rightarrow> 'f CodeReviewEngine \<Rightarrow> string \<Rightarrow>
   string list option \<Rightarrow> 'w world \<Rightarrow> (py_exception + review_dict list) \<times> 'w world" where
  "CodeReviewEngine_review_code fr lc ep self code_diff selected_personas st =
     (case selected_personas of
        None \<Rightarrow>
          run_personas fr ep (personas self) code_diff []
            (print (StartingReview (length (personas self))) st)
      | Some names \<Rightarrow>
          (let to_run = personas_to_run lc (personas self) names in
           if to_run = [] then (Inr [], print (WarningNoMatch names) st)
           else run_personas fr ep to_run code_diff [] (print (StartingReview (length to_run)) st)))"


section \<open>The report\<close>

definition magnifier :: string where "magnifier = [CHR 0xF0, CHR 0x9F, CHR 0x94, CHR 0x8D]"
definition bar_chart :: string where "bar_chart = [CHR 0xF0, CHR 0x9F, CHR 0x93, CHR 0x8A]"
definition check_mark :: string where "check_mark = [CHR 0xE2, CHR 0x9C, CHR 0x85]"
definition cross_mark :: string where "cross_mark = [CHR 0xE2, CHR 0x9D, CHR 0x8C]"
definition robot :: string where "robot = [CHR 0xF0, CHR 0x9F, CHR 0xA4, CHR 0x96]"

text \<open>
  \<open>CodeReviewEngine.format_reviews\<close>, with \<open>report\<close> rebound as the source's \<open>+=\<close> does and
  the loop over the reviews as a left fold. It is written in the same state-passing form
  as the other methods; the world it returns is the one it was given.
\<close>

definition format_reviews ::
  "'f CodeReviewEngine \<Rightarrow> review_dict list \<Rightarrow> 'w world \<Rightarrow> string \<times> 'w world" where
  "format_reviews self reviews st =
     (let report = ''# '' @ magnifier @ '' Multi-Persona Code Review Report\<newline>\<newline>'';
          total_reviews = length (filter (\<lambda>r. status r = ''success'') reviews);
          error_count = length (filter (\<lambda>r. status r = ''error'') reviews);
          report = report @ bar_chart @ '' **Review Summary:**\<newline>'';
          report = report @ ''- '' @ check_mark @ '' Successful reviews: '' @
                   str_nat total_reviews @ ''\<newline>'';
          report = report @ ''- '' @ cross_mark @ '' Failed reviews: '' @
                   str_nat error_count @ ''\<newline>\<newline>'';
          report = report @ ''---\<newline>\<newline>''
      in (foldl (\<lambda>report rv.
                   if status rv = ''success'' then
                     report @ ''## '' @ robot @ '' '' @ persona rv @ '' - '' @
                       review_dict.focus rv @ ''\<newline>\<newline>'' @
                       review_dict.review rv @ ''\<newline>\<newline>'' @ ''---\<newline>\<newline>''
                   else
                     report @ ''## '' @ cross_mark @ '' '' @ persona rv @
                       '' - ERROR\<newline>\<newline>'' @
                       review_dict.review rv @ ''\<newline>\<newline>'' @ ''---\<newline>\<newline>'')
                report reviews, st))"

text \<open>
  The layout of the report, part by part: the title, the summary with its two counts, and
  one block for each result.
\<close>

definition success_count :: "review_dict list \<Rightarrow> nat" where
  "success_count rs = length (filter (\<lambda>r. status r = ''success'') rs)"

definition failure_count :: "review_dict list \<Rightarrow> nat" where
  "failure_count rs = length (filter (\<lambda>r. status r = ''error'') rs)"

definition report_title :: string where
  "report_title = ''# '' @ magnifier @ '' Multi-Persona Code Review Report\<newline>\<newline>''"

definition report_summary :: "nat \<Rightarrow> nat \<Rightarrow> string" where
  "report_summary ok failed =
     bar_chart @ '' **Review Summary:**\<newline>'' @
     ''- '' @ check_mark @ '' Successful reviews: '' @ str_nat ok @ ''\<newline>'' @
     ''- '' @ cross_mark @ '' Failed reviews: '' @ str_nat failed @ ''\<newline>\<newline>'' @
     ''---\<newline>\<newline>''"

definition success_block :: "review_dict \<Rightarrow> string" where
  "success_block r =
     ''## '' @ robot @ '' '' @ persona r @ '' - '' @ review_dict.focus r @ ''\<newline>\<newline>'' @
     review r @ ''\<newline>\<newline>---\<newline>\<newline>''"

definition failure_block :: "review_dict \<Rightarrow> string" where
  "failure_block r =
     ''## '' @ cross_mark @ '' '' @ persona r @ '' - ERROR\<newline>\<newline>'' @
     review r @ ''\<newline>\<newline>---\<newline>\<newline>''"

definition result_block :: "review_dict \<Rightarrow> string" where
  "result_block r = (if status r = ''success'' then success_block r else failure_block r)"

section \<open>Auxiliary definitions and sample runs\<close>

text \<open>The prompt a persona sends for a payload, when its template can be filled.\<close>

definition full_prompt_of :: "format_rest \<Rightarrow> 'f CodeReviewPersona \<Rightarrow> string \<Rightarrow> string" where
  "full_prompt_of fr p code_diff =
     (case py_format fr (prompt_template p) code_diff of Inr q \<Rightarrow> q | Inl e \<Rightarrow> [])"

text \<open>The value of \<open>_initialize_personas\<close>, as a list.\<close>

definition builtin_personas :: "'f config \<Rightarrow> 'f CodeReviewPersona list" where
  "builtin_personas cfg =
     [\<lparr>name = ''Code Quality Specialist'', focus = ''Code maintainability and best practices'',
       config = cfg, prompt_template = code_quality_template\<rparr>,
      \<lparr>name = ''Bug Hunter'', focus = ''Potential bugs and edge cases'',
       config = cfg, prompt_template = bug_hunter_template\<rparr>]"

text \<open>
  A configuration with the defaults of \<open>load_config\<close>, and an endpoint that plays a script:
  its state is the list of answers still to give, and with none left the call raises.
\<close>

definition example_config :: "string config" where
  "example_config =
     \<lparr>google_api_key = ''secret'', model_name = ''gemini-1.5-flash'', max_tokens = 2000,
      temperature = ''0.1''\<rparr>"

definition scripted :: "(string, (string + string) list) endpoint" where
  "scripted w cfg prompt =
     (case w of [] \<Rightarrow> (Inl ''connection refused'', []) | r # rs \<Rightarrow> (r, rs))"

text \<open>
  The sample runs use templates in which no field goes on after \<open>code_diff\<close>, so what
  they give does not depend on the argument \<open>fr\<close>; they are stated with one that raises.
\<close>

definition no_rest :: format_rest where
  "no_rest rest code = Inl FormatError"

definition start :: "(string + string) list \<Rightarrow> (string + string) list world" where
  "start script = \<lparr>trace = [], ext = script\<rparr>"

definition custom_persona :: "string \<Rightarrow> string CodeReviewPersona" where
  "custom_persona template =
     \<lparr>name = ''Custom Persona'', focus = ''Custom review focus'', config = example_config,
      prompt_template = template\<rparr>"

text \<open>
  The engine as \<open>main\<close> has it after appending a persona generated from a description:
  the built-in personas, then the custom one with the template the endpoint returned.
\<close>

definition sample_engine :: "string \<Rightarrow> string CodeReviewEngine" where
  "sample_engine template =
     \<lparr>config = example_config,
      personas = builtin_personas example_config @ [custom_persona template]\<rparr>"

text \<open>Two reviews as \<open>review_code\<close> returns them, one failed and one not.\<close>

definition failed_review :: review_dict where
  "failed_review =
     \<lparr>persona = ''Code Quality Specialist'', focus = ''Code maintainability and best practices'',
      review = ''Error during review: 429 quota exceeded'', status = ''error''\<rparr>"

definition passed_review :: review_dict where
  "passed_review =
     \<lparr>persona = ''Bug Hunter'', focus = ''Potential bugs and edge cases'',
      review = ''No defects found.'', status = ''success''\<rparr>"

section \<open>Filling templates\<close>

declare str_nat.simps [simp del]

lemma fill_plain:
  "CHR ''{'' \<notin> set s \<Longrightarrow> CHR ''}'' \<notin> set s \<Longrightarrow>
   fill fr Literal (s @ t) code = emit s (fill fr Literal t code)"
  by (induction s) (auto simp: emit_def split: sum.splits)

lemma fill_code_slot:
  "fill fr Literal (''{code_diff}'' @ t) code = emit code (fill fr Literal t code)"
  by simp

lemma py_format_one_slot:
  assumes "CHR ''{'' \<notin> set a" "CHR ''}'' \<notin> set a" "CHR ''{'' \<notin> set b" "CHR ''}'' \<notin> set b"
  shows "py_format fr (a @ ''{code_diff}'' @ b) code = Inr (a @ code @ b)"
proof -
  have "fill fr Literal b code = Inr b"
    using fill_plain [where s = b and t = "[]" and code = code and fr = fr] assms by (simp add: emit_def)
  then have "fill fr Literal (''{code_diff}'' @ b) code = Inr (code @ b)"
    by (simp only: fill_code_slot) (simp add: emit_def)
  then have "fill fr Literal (a @ ''{code_diff}'' @ b) code = Inr (a @ code @ b)"
    using fill_plain [where s = a and t = "''{code_diff}'' @ b" and code = code and fr = fr] assms by (simp add: emit_def)
  then show ?thesis by (simp add: py_format_def)
qed

lemma code_quality_fills:
  "py_format fr code_quality_template code =
     Inr (code_quality_before @ code @ code_quality_after)"
  unfolding code_quality_template_def
  by (rule py_format_one_slot) (simp_all add: code_quality_before_def code_quality_after_def)

lemma bug_hunter_fills:
  "py_format fr bug_hunter_template code = Inr (bug_hunter_before @ code @ bug_hunter_after)"
  unfolding bug_hunter_template_def
  by (rule py_format_one_slot) (simp_all add: bug_hunter_before_def bug_hunter_after_def)

lemma templates_not_empty: "code_quality_template \<noteq> []" "bug_hunter_template \<noteq> []"
  by (simp_all add: code_quality_template_def bug_hunter_template_def)

lemma initialize_personas_eq:
  "initialize_personas strip ep cfg st = (Inr (builtin_personas cfg), st)"
  by (simp add: initialize_personas_def CodeReviewPersona_init_def templates_not_empty
      builtin_personas_def)

lemma CodeReviewEngine_init_eq:
  "CodeReviewEngine_init strip ep cfg st =
     (Inr \<lparr>config = cfg, personas = builtin_personas cfg\<rparr>, st)"
  by (simp add: CodeReviewEngine_init_def initialize_personas_eq)

lemma lower_names:
  "ascii_lower ''Code Quality Specialist'' = ''code quality specialist''"
  "ascii_lower ''Bug Hunter'' = ''bug hunter''"
  "ascii_lower ''Custom Persona'' = ''custom persona''"
  "ascii_lower ''code quality'' = ''code quality''"
  "ascii_lower ''bug hunter'' = ''bug hunter''"
  "ascii_lower ''custom persona'' = ''custom persona''"
  "ascii_lower ''nonexistent'' = ''nonexistent''"
  by code_simp+

lemma builtin_fill:
  "\<forall>p \<in> set (builtin_personas cfg). \<exists>q. py_format fr (prompt_template p) code = Inr q"
  by (simp add: builtin_personas_def code_quality_fills bug_hunter_fills)

lemma builtin_prompts:
  "map (\<lambda>p. [RunningReview (name p), GenerateContent (full_prompt_of fr p code)])
     (builtin_personas cfg) =
   [[RunningReview ''Code Quality Specialist'',
     GenerateContent (code_quality_before @ code @ code_quality_after)],
    [RunningReview ''Bug Hunter'',
     GenerateContent (bug_hunter_before @ code @ bug_hunter_after)]]"
  by (simp add: builtin_personas_def full_prompt_of_def code_quality_fills bug_hunter_fills)

section \<open>One persona\<close>

lemma review_code_returns:
  assumes "py_format fr (prompt_template p) code = Inr q"
  shows "\<exists>rv. CodeReviewPersona_review_code fr ep p code st =
            (Inr rv, \<lparr>trace = trace st @ [GenerateContent q],
                      ext = snd (ep (ext st) (CodeReviewPersona.config p) q)\<rparr>) \<and>
          persona rv = name p \<and> review_dict.focus rv = CodeReviewPersona.focus p \<and>
          (status rv = ''success'' \<or> status rv = ''error'')"
proof (cases "ep (ext st) (CodeReviewPersona.config p) q")
  case (Pair r w)
  then show ?thesis using assms
    by (cases r) (simp_all add: CodeReviewPersona_review_code_def generate_content_def)
qed

lemma review_code_raises:
  assumes "py_format fr (prompt_template p) code = Inl e"
  shows "CodeReviewPersona_review_code fr ep p code st = (Inl e, st)"
  using assms by (simp add: CodeReviewPersona_review_code_def)

text \<open>
  C4: for every persona and payload for which \<open>str.format\<close> returns the prompt,
  whatever fields the template has, whenever the call of the endpoint inside
  \<open>review_code\<close> raises, with message \<open>msg\<close>, \<open>review_code\<close> returns a review with status
  \<open>error\<close> whose body is \<open>Error during review: msg\<close>, for the persona's name and
  focus; nothing is raised.
\<close>

theorem review_code_endpoint_error:
  assumes "py_format fr (prompt_template self) code_diff = Inr full_prompt"
    and "ep (ext st) (CodeReviewPersona.config self) full_prompt = (Inl msg, w)"
  shows "CodeReviewPersona_review_code fr ep self code_diff st =
           (Inr \<lparr>persona = name self, focus = CodeReviewPersona.focus self,
                 review = ''Error during review: '' @ msg, status = ''error''\<rparr>,
            \<lparr>trace = trace st @ [GenerateContent full_prompt], ext = w\<rparr>)"
  using assms
  by (simp add: CodeReviewPersona_review_code_def generate_content_def)

theorem review_code_endpoint_error_witness:
  "CodeReviewPersona_review_code no_rest scripted (custom_persona bug_hunter_template) ''x = 1''
     (start [Inl ''429 quota exceeded'', Inr ''unused'']) =
     (Inr \<lparr>persona = ''Custom Persona'', focus = ''Custom review focus'',
           review = ''Error during review: 429 quota exceeded'', status = ''error''\<rparr>,
      \<lparr>trace = [GenerateContent (bug_hunter_before @ ''x = 1'' @ bug_hunter_after)],
       ext = [Inr ''unused'']\<rparr>)"
proof -
  have fills: "py_format no_rest (prompt_template (custom_persona bug_hunter_template)) ''x = 1'' =
      Inr (bug_hunter_before @ ''x = 1'' @ bug_hunter_after)"
    by (simp add: custom_persona_def bug_hunter_fills)
  have raises: "scripted (ext (start [Inl ''429 quota exceeded'', Inr ''unused'']))
      (CodeReviewPersona.config (custom_persona bug_hunter_template))
      (bug_hunter_before @ ''x = 1'' @ bug_hunter_after) =
      (Inl ''429 quota exceeded'', [Inr ''unused''])"
    by (simp add: scripted_def start_def)
  show ?thesis
    using review_code_endpoint_error
      [where fr = no_rest and ep = scripted and st = "start [Inl ''429 quota exceeded'', Inr ''unused'']",
       OF fills raises]
    by (simp add: custom_persona_def start_def)
qed

text \<open>
  C8: a persona built without a template from a description that Python takes as true
  is constructed even when the meta-prompt call raises: the constructor returns, the
  template is the empty string, and the error is printed.
\<close>

theorem persona_from_description_endpoint_failure:
  assumes "\<not> truthy template" and "truthy description"
    and "ep (ext st) cfg (meta_prompt (str_of description)) = (Inl msg, w)"
  shows "CodeReviewPersona_init strip ep nm cfg fc template description st =
           (Inr \<lparr>name = nm, focus = fc, config = cfg, prompt_template = []\<rparr>,
            \<lparr>trace = trace st @ [GeneratingTemplate nm,
                                  GenerateContent (meta_prompt (str_of description)),
                                  ErrorGeneratingPrompt msg],
             ext = w\<rparr>)"
  using assms
  by (simp add: CodeReviewPersona_init_def generate_persona_prompt_def generate_content_def
      print_def)

theorem persona_from_description_endpoint_failure_witness:
  "CodeReviewPersona_init ascii_strip scripted ''Custom Persona'' example_config
     ''Custom review focus'' None (Some ''focuses on accessibility'') (start []) =
     (Inr (custom_persona []),
      \<lparr>trace = [GeneratingTemplate ''Custom Persona'',
                GenerateContent (meta_prompt ''focuses on accessibility''),
                ErrorGeneratingPrompt ''connection refused''],
       ext = []\<rparr>)"
proof -
  have no_template: "\<not> truthy None" by simp
  have described: "truthy (Some ''focuses on accessibility'')" by simp
  have raises: "scripted (ext (start [])) example_config
      (meta_prompt (str_of (Some ''focuses on accessibility''))) =
      (Inl ''connection refused'', [])"
    by (simp add: scripted_def start_def)
  show ?thesis
    using persona_from_description_endpoint_failure
      [where ep = scripted and st = "start []", OF no_template described raises]
    by (simp add: custom_persona_def start_def)
qed

text \<open>
  C10: with neither a template nor a description that Python takes as true, the
  constructor raises \<open>ValueError\<close>. Whenever it returns a persona, the persona's template
  is the template given, or, without one, what \<open>generate_persona_prompt\<close> returned for the
  description (the empty string when the meta-prompt call failed).
\<close>

theorem persona_init_template_or_description:
  "(\<not> truthy template \<and> \<not> truthy description \<longrightarrow>
      CodeReviewPersona_init strip ep nm cfg fc template description st =
        (Inl (ValueError ''Either prompt template or description must be provided.''), st)) \<and>
   (\<forall>p st'. CodeReviewPersona_init strip ep nm cfg fc template description st = (Inr p, st') \<longrightarrow>
      (truthy template \<and> prompt_template p = str_of template) \<or>
      (\<not> truthy template \<and> truthy description \<and>
       prompt_template p =
         fst (generate_persona_prompt strip ep (str_of description) cfg
                (print (GeneratingTemplate nm) st))))"
  by (auto simp: CodeReviewPersona_init_def split: prod.splits)

theorem persona_init_template_or_description_witness:
  "(\<not> truthy None \<and> \<not> truthy (Some [])) \<and>
   CodeReviewPersona_init ascii_strip scripted ''Custom Persona'' example_config
     ''Custom review focus'' None (Some []) (start []) =
     (Inl (ValueError ''Either prompt template or description must be provided.''), start []) \<and>
   CodeReviewPersona_init ascii_strip scripted ''Custom Persona'' example_config
     ''Custom review focus'' (Some ''Review: {code_diff}'') None (start []) =
     (Inr (custom_persona ''Review: {code_diff}''), start []) \<and>
   prompt_template (custom_persona ''Review: {code_diff}'') = ''Review: {code_diff}''"
  using persona_init_template_or_description
    [of None "Some []" ascii_strip scripted "''Custom Persona''" example_config
        "''Custom review focus''" "start []"]
    persona_init_template_or_description
    [of "Some ''Review: {code_diff}''" None ascii_strip scripted "''Custom Persona''"
        example_config "''Custom review focus''" "start []"]
  by (simp add: CodeReviewPersona_init_def custom_persona_def)

text \<open>
  C1 asks that a template which cannot be filled gives a review with status \<open>error\<close>.
  In \<open>review_code\<close> the call of \<open>format\<close> stands before the \<open>try\<close> block, so its
  exception leaves the method: with a template that names a second placeholder, and with
  one whose brace is never closed, \<open>review_code\<close> raises for every endpoint, payload and
  world, and the endpoint is not called.
\<close>

theorem review_code_template_failure_raises:
  "CodeReviewPersona_review_code fr ep
     \<lparr>name = nm, focus = fc, config = cfg,
      prompt_template = ''Review this {language} change: {code_diff}''\<rparr> code_diff st =
     (Inl FormatError, st) \<and>
   CodeReviewPersona_review_code fr ep
     \<lparr>name = nm, focus = fc, config = cfg,
      prompt_template = ''Review {code_diff} and answer as {severity, line''\<rparr> code_diff st =
     (Inl FormatError, st)"
  by (simp add: CodeReviewPersona_review_code_def py_format_def emit_def)

section \<open>The dispatcher\<close>

lemma run_personas_all:
  assumes "\<forall>p \<in> set ps. \<exists>q. py_format fr (prompt_template p) code = Inr q"
  shows "\<exists>rs st'. run_personas fr ep ps code acc st = (Inr (acc @ rs), st') \<and>
           map persona rs = map name ps \<and>
           map review_dict.focus rs = map CodeReviewPersona.focus ps \<and>
           (\<forall>r \<in> set rs. status r = ''success'' \<or> status r = ''error'') \<and>
           trace st' = trace st @
             concat (map (\<lambda>p. [RunningReview (name p), GenerateContent (full_prompt_of fr p code)]) ps)"
  using assms
proof (induction ps arbitrary: acc st)
  case Nil
  then show ?case by simp
next
  case (Cons p ps)
  then obtain q where q: "py_format fr (prompt_template p) code = Inr q" by auto
  let ?st1 = "print (RunningReview (name p)) st"
  let ?st2 = "\<lparr>trace = trace ?st1 @ [GenerateContent q],
               ext = snd (ep (ext ?st1) (CodeReviewPersona.config p) q)\<rparr>"
  from review_code_returns [OF q, where ep = ep and st = ?st1]
  obtain rv where rv:
    "CodeReviewPersona_review_code fr ep p code ?st1 = (Inr rv, ?st2)"
    "persona rv = name p" "review_dict.focus rv = CodeReviewPersona.focus p"
    "status rv = ''success'' \<or> status rv = ''error''"
    by blast
  from Cons.IH [of "acc @ [rv]" ?st2] Cons.prems
  obtain rs st' where rs:
    "run_personas fr ep ps code (acc @ [rv]) ?st2 = (Inr ((acc @ [rv]) @ rs), st')"
    "map persona rs = map name ps"
    "map review_dict.focus rs = map CodeReviewPersona.focus ps"
    "\<forall>r \<in> set rs. status r = ''success'' \<or> status r = ''error''"
    "trace st' = trace ?st2 @
       concat (map (\<lambda>p. [RunningReview (name p), GenerateContent (full_prompt_of fr p code)]) ps)"
    by auto
  show ?case
  proof (intro exI conjI)
    show "run_personas fr ep (p # ps) code acc st = (Inr (acc @ (rv # rs)), st')"
      using rv(1) rs(1) by simp
    show "map persona (rv # rs) = map name (p # ps)" using rv(2) rs(2) by simp
    show "map review_dict.focus (rv # rs) = map CodeReviewPersona.focus (p # ps)"
      using rv(3) rs(3) by simp
    show "\<forall>r \<in> set (rv # rs). status r = ''success'' \<or> status r = ''error''"
      using rv(4) rs(4) by simp
    show "trace st' = trace st @
       concat (map (\<lambda>p. [RunningReview (name p), GenerateContent (full_prompt_of fr p code)]) (p # ps))"
      using rs(5) q by (simp add: print_def full_prompt_of_def)
  qed
qed

lemma run_personas_raises:
  assumes "\<forall>p \<in> set ps. \<exists>q. py_format fr (prompt_template p) code = Inr q"
    and "py_format fr (prompt_template bad) code = Inl e"
  shows "\<exists>st'. run_personas fr ep (ps @ bad # rest) code acc st = (Inl e, st') \<and>
           trace st' = trace st @
             concat (map (\<lambda>p. [RunningReview (name p), GenerateContent (full_prompt_of fr p code)]) ps)
             @ [RunningReview (name bad)]"
  using assms(1)
proof (induction ps arbitrary: acc st)
  case Nil
  then show ?case using assms(2) by (simp add: review_code_raises print_def)
next
  case (Cons p ps)
  then obtain q where q: "py_format fr (prompt_template p) code = Inr q" by auto
  let ?st1 = "print (RunningReview (name p)) st"
  let ?st2 = "\<lparr>trace = trace ?st1 @ [GenerateContent q],
               ext = snd (ep (ext ?st1) (CodeReviewPersona.config p) q)\<rparr>"
  from review_code_returns [OF q, where ep = ep and st = ?st1]
  obtain rv where rv: "CodeReviewPersona_review_code fr ep p code ?st1 = (Inr rv, ?st2)"
    by blast
  from Cons.IH [of "acc @ [rv]" ?st2] Cons.prems
  obtain st' where st':
    "run_personas fr ep (ps @ bad # rest) code (acc @ [rv]) ?st2 = (Inl e, st')"
    "trace st' = trace ?st2 @
       concat (map (\<lambda>p. [RunningReview (name p), GenerateContent (full_prompt_of fr p code)]) ps)
       @ [RunningReview (name bad)]"
    by auto
  show ?case
    using rv st' q by (simp add: print_def full_prompt_of_def)
qed

lemma selection_runs_each_match:
  assumes "personas_to_run lc (personas self) names \<noteq> []"
    and "\<forall>p \<in> set (personas_to_run lc (personas self) names).
           \<exists>q. py_format fr (prompt_template p) code_diff = Inr q"
  shows "\<exists>rs st'. CodeReviewEngine_review_code fr lc ep self code_diff (Some names) st =
             (Inr rs, st') \<and>
           map persona rs = map name (personas_to_run lc (personas self) names)"
proof -
  let ?run = "personas_to_run lc (personas self) names"
  from run_personas_all
    [OF assms(2), where ep = ep and acc = "[]" and st = "print (StartingReview (length ?run)) st"]
  obtain rs st' where
    "run_personas fr ep ?run code_diff [] (print (StartingReview (length ?run)) st) = (Inr rs, st')"
    "map persona rs = map name ?run"
    by auto
  then show ?thesis
    using assms(1) by (simp add: CodeReviewEngine_review_code_def Let_def)
qed

lemma strip_sample:
  "ascii_strip ''  Rate the style as {score: 1-10}.\<newline>'' = ''Rate the style as {score: 1-10}.''"
  by code_simp

text \<open>
  How \<open>main\<close> comes to an engine whose last persona has a template with a second pair of
  braces: the endpoint's answer to the meta-prompt is stored as it is.
\<close>

lemma main_dynamic_persona_sample:
  "main_dynamic_persona ascii_strip scripted
     \<lparr>config = example_config, personas = builtin_personas example_config\<rparr>
     ''Custom Persona'' ''Custom review focus'' (Some ''checks the style'')
     (start [Inr ''  Rate the style as {score: 1-10}.\<newline>'']) =
   (Inr (sample_engine ''Rate the style as {score: 1-10}.''),
    \<lparr>trace = [GeneratingTemplate ''Custom Persona'',
              GenerateContent (meta_prompt ''checks the style'')],
     ext = []\<rparr>)"
  by (simp add: main_dynamic_persona_def CodeReviewPersona_init_def generate_persona_prompt_def
      generate_content_def print_def scripted_def start_def strip_sample sample_engine_def
      custom_persona_def)

text \<open>
  C5: when no registered persona's lower-cased name equals the lower-cased form of a
  selected name, \<open>review_code\<close> returns the empty list, prints the warning with the
  selected names, and does nothing else: no prompt is sent and the endpoint's state is
  as before.
\<close>

theorem no_match_gives_empty_and_warning:
  assumes "\<forall>p \<in> set (personas self). \<forall>s \<in> set names. lc (name p) \<noteq> lc s"
  shows "CodeReviewEngine_review_code fr lc ep self code_diff (Some names) st =
           (Inr [], \<lparr>trace = trace st @ [WarningNoMatch names], ext = ext st\<rparr>)"
proof -
  have "personas_to_run lc (personas self) names = []"
    using assms by (auto simp: personas_to_run_def filter_empty_conv)
  then show ?thesis
    by (simp add: CodeReviewEngine_review_code_def print_def)
qed

theorem no_match_gives_empty_and_warning_witness:
  "CodeReviewEngine_review_code no_rest ascii_lower scripted
     \<lparr>config = example_config, personas = builtin_personas example_config\<rparr> ''x = 1''
     (Some [''nonexistent'']) (start [Inr ''unused'']) =
     (Inr [], \<lparr>trace = [WarningNoMatch [''nonexistent'']], ext = [Inr ''unused'']\<rparr>)"
proof -
  have none: "\<forall>p \<in> set (personas \<lparr>config = example_config,
        personas = builtin_personas example_config\<rparr>).
      \<forall>s \<in> set [''nonexistent'']. ascii_lower (name p) \<noteq> ascii_lower s"
    by (simp add: builtin_personas_def lower_names)
  show ?thesis
    using no_match_gives_empty_and_warning
      [where fr = no_rest and ep = scripted and st = "start [Inr ''unused'']"
         and code_diff = "''x = 1''", OF none]
    by (simp add: start_def)
qed

text \<open>
  C2, as the code has it: with no selection list (\<open>None\<close>) the loop runs over the whole
  list of registered personas, in its order. When every registered persona's template
  can be filled with the payload, \<open>review_code\<close> then returns one review for each
  registered persona, in the order of the list, with that persona's name and focus, after
  sending the personas' prompts in that order. An empty selection list is not taken as
  absent: it selects nothing, and \<open>review_code\<close> returns the empty list with the warning.
\<close>

theorem absent_selection_runs_every_persona:
  "CodeReviewEngine_review_code fr lc ep self code_diff None st =
     run_personas fr ep (personas self) code_diff []
       (print (StartingReview (length (personas self))) st) \<and>
   ((\<forall>p \<in> set (personas self). \<exists>q. py_format fr (prompt_template p) code_diff = Inr q) \<longrightarrow>
      (\<exists>rs st'. CodeReviewEngine_review_code fr lc ep self code_diff None st = (Inr rs, st') \<and>
         length rs = length (personas self) \<and>
         map persona rs = map name (personas self) \<and>
         map review_dict.focus rs = map CodeReviewPersona.focus (personas self) \<and>
         (\<forall>r \<in> set rs. status r = ''success'' \<or> status r = ''error'') \<and>
         trace st' = trace st @ StartingReview (length (personas self)) #
           concat (map (\<lambda>p. [RunningReview (name p),
                              GenerateContent (full_prompt_of fr p code_diff)])
                     (personas self)))) \<and>
   CodeReviewEngine_review_code fr lc ep self code_diff (Some []) st =
     (Inr [], \<lparr>trace = trace st @ [WarningNoMatch []], ext = ext st\<rparr>)"
proof (intro conjI impI)
  show "CodeReviewEngine_review_code fr lc ep self code_diff None st =
     run_personas fr ep (personas self) code_diff []
       (print (StartingReview (length (personas self))) st)"
    by (simp add: CodeReviewEngine_review_code_def)
next
  assume fills:
    "\<forall>p \<in> set (personas self). \<exists>q. py_format fr (prompt_template p) code_diff = Inr q"
  let ?st1 = "print (StartingReview (length (personas self))) st"
  from run_personas_all [OF fills, where ep = ep and acc = "[]" and st = ?st1]
  obtain rs st' where rs:
    "run_personas fr ep (personas self) code_diff [] ?st1 = (Inr rs, st')"
    "map persona rs = map name (personas self)"
    "map review_dict.focus rs = map CodeReviewPersona.focus (personas self)"
    "\<forall>r \<in> set rs. status r = ''success'' \<or> status r = ''error''"
    "trace st' = trace ?st1 @
       concat (map (\<lambda>p. [RunningReview (name p), GenerateContent (full_prompt_of fr p code_diff)])
                 (personas self))"
    by auto
  from rs(2) have len: "length rs = length (personas self)"
    by (metis length_map)
  show "\<exists>rs st'. CodeReviewEngine_review_code fr lc ep self code_diff None st = (Inr rs, st') \<and>
         length rs = length (personas self) \<and>
         map persona rs = map name (personas self) \<and>
         map review_dict.focus rs = map CodeReviewPersona.focus (personas self) \<and>
         (\<forall>r \<in> set rs. status r = ''success'' \<or> status r = ''error'') \<and>
         trace st' = trace st @ StartingReview (length (personas self)) #
           concat (map (\<lambda>p. [RunningReview (name p),
                              GenerateContent (full_prompt_of fr p code_diff)])
                     (personas self))"
    using rs len by (auto simp: CodeReviewEngine_review_code_def print_def)
next
  show "CodeReviewEngine_review_code fr lc ep self code_diff (Some []) st =
     (Inr [], \<lparr>trace = trace st @ [WarningNoMatch []], ext = ext st\<rparr>)"
    by (simp add: CodeReviewEngine_review_code_def personas_to_run_def print_def)
qed

theorem absent_selection_runs_every_persona_witness:
  "py_format no_rest code_quality_template ''x = 1'' =
     Inr (code_quality_before @ ''x = 1'' @ code_quality_after) \<and>
   py_format no_rest bug_hunter_template ''x = 1'' =
     Inr (bug_hunter_before @ ''x = 1'' @ bug_hunter_after) \<and>
   py_format no_rest ''Review for a11y: {code_diff}'' ''x = 1'' = Inr ''Review for a11y: x = 1'' \<and>
   fst (CodeReviewEngine_review_code no_rest ascii_lower scripted
          (sample_engine ''Review for a11y: {code_diff}'') ''x = 1'' None
          (start [Inr ''Looks fine.'', Inl ''429 quota exceeded'', Inr ''Add alt text.''])) =
     Inr [\<lparr>persona = ''Code Quality Specialist'',
           focus = ''Code maintainability and best practices'',
           review = ''Looks fine.'', status = ''success''\<rparr>,
          \<lparr>persona = ''Bug Hunter'', focus = ''Potential bugs and edge cases'',
           review = ''Error during review: 429 quota exceeded'', status = ''error''\<rparr>,
          \<lparr>persona = ''Custom Persona'', focus = ''Custom review focus'',
           review = ''Add alt text.'', status = ''success''\<rparr>]"
proof -
  have custom: "py_format no_rest ''Review for a11y: {code_diff}'' ''x = 1'' = Inr ''Review for a11y: x = 1''"
    by (simp add: py_format_def emit_def)
  have fills: "\<forall>p \<in> set (personas (sample_engine ''Review for a11y: {code_diff}'')).
      \<exists>q. py_format no_rest (prompt_template p) ''x = 1'' = Inr q"
    using builtin_fill [where cfg = example_config and code = "''x = 1''" and fr = no_rest]
    by (simp add: sample_engine_def custom_persona_def custom)
  show ?thesis
    using fills absent_selection_runs_every_persona
      [where self = "sample_engine ''Review for a11y: {code_diff}''" and code_diff = "''x = 1''"
         and fr = no_rest and lc = ascii_lower and ep = scripted
         and st = "start [Inr ''Looks fine.'', Inl ''429 quota exceeded'', Inr ''Add alt text.'']"]
    by (simp add: custom code_quality_fills bug_hunter_fills CodeReviewEngine_review_code_def
        sample_engine_def builtin_personas_def custom_persona_def
        CodeReviewPersona_review_code_def generate_content_def scripted_def start_def print_def)
qed

text \<open>
  The claim as stated fails for the empty list: three personas are registered and none
  is run.
\<close>

theorem empty_selection_runs_nothing:
  "length (personas (sample_engine ''Review for a11y: {code_diff}'')) = 3 \<and>
   CodeReviewEngine_review_code no_rest ascii_lower scripted
     (sample_engine ''Review for a11y: {code_diff}'') ''x = 1'' (Some [])
     (start [Inr ''Looks fine.'']) =
     (Inr [], \<lparr>trace = [WarningNoMatch []], ext = [Inr ''Looks fine.'']\<rparr>)"
  by (simp add: CodeReviewEngine_review_code_def personas_to_run_def print_def start_def
      sample_engine_def builtin_personas_def)

text \<open>
  C3 asks for one review for each selected persona whatever fails. Take the two built-in
  personas and a custom persona whose generated template has a second pair of braces.
  With the selection \<open>bug hunter\<close>, \<open>custom persona\<close> the Bug Hunter is sent to the
  endpoint, then \<open>review_code\<close> on the engine raises: the review already collected is lost
  with the list and nothing is returned. With the custom persona alone selected nothing
  is returned either. With the custom persona registered first and both selected, the
  Bug Hunter is never run. This is the \<open>format\<close> call outside the \<open>try\<close> block of C1.
\<close>

theorem dispatch_aborts_on_template_failure:
  "fst (CodeReviewEngine_review_code fr ascii_lower ep
          (sample_engine ''Rate the style as {score: 1-10}.'') code_diff
          (Some [''bug hunter'', ''custom persona'']) st) = Inl FormatError \<and>
   trace (snd (CodeReviewEngine_review_code fr ascii_lower ep
          (sample_engine ''Rate the style as {score: 1-10}.'') code_diff
          (Some [''bug hunter'', ''custom persona'']) st)) =
     trace st @
     [StartingReview 2,
      RunningReview ''Bug Hunter'',
      GenerateContent (bug_hunter_before @ code_diff @ bug_hunter_after),
      RunningReview ''Custom Persona''] \<and>
   fst (CodeReviewEngine_review_code fr ascii_lower ep
          (sample_engine ''Rate the style as {score: 1-10}.'') code_diff
          (Some [''custom persona'']) st) = Inl FormatError \<and>
   CodeReviewEngine_review_code fr ascii_lower ep
     \<lparr>config = example_config,
      personas = custom_persona ''Rate the style as {score: 1-10}.'' #
                 builtin_personas example_config\<rparr>
     code_diff (Some [''custom persona'', ''bug hunter'']) st =
     (Inl FormatError,
      \<lparr>trace = trace st @ [StartingReview 2, RunningReview ''Custom Persona''], ext = ext st\<rparr>)"
proof -
  let ?T = "''Rate the style as {score: 1-10}.''"
  let ?bad = "custom_persona ?T"
  let ?bh = "\<lparr>name = ''Bug Hunter'', focus = ''Potential bugs and edge cases'',
              config = example_config, prompt_template = bug_hunter_template\<rparr>"
  have bad: "py_format fr (prompt_template ?bad) code_diff = Inl FormatError"
    by (simp add: custom_persona_def py_format_def emit_def)
  have raises: "CodeReviewPersona_review_code fr ep ?bad code_diff w = (Inl FormatError, w)" for w
    using bad by (rule review_code_raises)
  have nm: "name ?bad = ''Custom Persona''"
    by (simp add: custom_persona_def)
  have two: "personas_to_run ascii_lower (personas (sample_engine ?T))
      [''bug hunter'', ''custom persona''] = [?bh, ?bad]"
    by (simp add: personas_to_run_def sample_engine_def builtin_personas_def nm lower_names)
  have one: "personas_to_run ascii_lower (personas (sample_engine ?T)) [''custom persona''] =
      [?bad]"
    by (simp add: personas_to_run_def sample_engine_def builtin_personas_def nm lower_names)
  have first: "personas_to_run ascii_lower (?bad # builtin_personas example_config)
      [''custom persona'', ''bug hunter''] = [?bad, ?bh]"
    by (simp add: personas_to_run_def builtin_personas_def nm lower_names)
  have fills: "\<forall>p \<in> set [?bh]. \<exists>q. py_format fr (prompt_template p) code_diff = Inr q"
    by (simp add: bug_hunter_fills)
  let ?st1 = "print (StartingReview 2) st"
  from run_personas_raises
    [OF fills bad, where ep = ep and rest = "[]" and acc = "[]" and st = ?st1]
  obtain st' where st':
    "run_personas fr ep [?bh, ?bad] code_diff [] ?st1 = (Inl FormatError, st')"
    "trace st' = trace ?st1 @
       concat (map (\<lambda>p. [RunningReview (name p), GenerateContent (full_prompt_of fr p code_diff)])
                 [?bh]) @ [RunningReview (name ?bad)]"
    by auto
  have run2: "CodeReviewEngine_review_code fr ascii_lower ep (sample_engine ?T) code_diff
      (Some [''bug hunter'', ''custom persona'']) st = (Inl FormatError, st')"
    using st'(1) by (simp add: CodeReviewEngine_review_code_def two numeral_2_eq_2)
  have tr2: "trace st' = trace st @
     [StartingReview 2, RunningReview ''Bug Hunter'',
      GenerateContent (bug_hunter_before @ code_diff @ bug_hunter_after),
      RunningReview ''Custom Persona'']"
    using st'(2) by (simp add: print_def nm full_prompt_of_def bug_hunter_fills)
  have run1: "fst (CodeReviewEngine_review_code fr ascii_lower ep (sample_engine ?T) code_diff
      (Some [''custom persona'']) st) = Inl FormatError"
    by (simp add: CodeReviewEngine_review_code_def one raises)
  have run3: "CodeReviewEngine_review_code fr ascii_lower ep
     \<lparr>config = example_config, personas = ?bad # builtin_personas example_config\<rparr>
     code_diff (Some [''custom persona'', ''bug hunter'']) st =
     (Inl FormatError,
      \<lparr>trace = trace st @ [StartingReview 2, RunningReview ''Custom Persona''], ext = ext st\<rparr>)"
    by (simp add: CodeReviewEngine_review_code_def first raises nm print_def numeral_2_eq_2)
  show ?thesis
    using run2 tr2 run1 run3 by simp
qed

text \<open>
  Without a selection the same engine raises as well, after both built-in personas have
  been sent to the endpoint.
\<close>

lemma dispatch_aborts_without_selection:
  "fst (CodeReviewEngine_review_code fr lc ep
          (sample_engine ''Rate the style as {score: 1-10}.'') code_diff None st) =
     Inl FormatError \<and>
   trace (snd (CodeReviewEngine_review_code fr lc ep
          (sample_engine ''Rate the style as {score: 1-10}.'') code_diff None st)) =
     trace st @
     [StartingReview 3,
      RunningReview ''Code Quality Specialist'',
      GenerateContent (code_quality_before @ code_diff @ code_quality_after),
      RunningReview ''Bug Hunter'',
      GenerateContent (bug_hunter_before @ code_diff @ bug_hunter_after),
      RunningReview ''Custom Persona'']"
proof -
  let ?bad = "custom_persona ''Rate the style as {score: 1-10}.''"
  let ?st1 = "print (StartingReview (length (builtin_personas example_config @ [?bad]))) st"
  have bad: "py_format fr (prompt_template ?bad) code_diff = Inl FormatError"
    by (simp add: custom_persona_def py_format_def emit_def)
  from run_personas_raises
    [OF builtin_fill [where cfg = example_config and code = code_diff and fr = fr] bad,
     where ep = ep and rest = "[]" and acc = "[]" and st = ?st1]
  obtain st' where st':
    "run_personas fr ep (builtin_personas example_config @ [?bad]) code_diff [] ?st1 =
       (Inl FormatError, st')"
    "trace st' = trace ?st1 @
       concat (map (\<lambda>p. [RunningReview (name p), GenerateContent (full_prompt_of fr p code_diff)])
                 (builtin_personas example_config)) @ [RunningReview (name ?bad)]"
    by blast
  have run: "CodeReviewEngine_review_code fr lc ep
      (sample_engine ''Rate the style as {score: 1-10}.'') code_diff None st = (Inl FormatError, st')"
    using st'(1)
    by (simp add: CodeReviewEngine_review_code_def sample_engine_def)
  have len: "length (builtin_personas example_config @ [?bad]) = 3"
    by (simp add: builtin_personas_def)
  show ?thesis
    using st'(2) [unfolded len]
    by (simp add: run builtin_prompts print_def custom_persona_def)
qed




section \<open>Rendering the report\<close>

lemma foldl_blocks:
  "foldl (\<lambda>report rv.
            if status rv = ''success'' then
              report @ ''## '' @ robot @ '' '' @ persona rv @ '' - '' @
                review_dict.focus rv @ ''\<newline>\<newline>'' @
                review_dict.review rv @ ''\<newline>\<newline>'' @ ''---\<newline>\<newline>''
            else
              report @ ''## '' @ cross_mark @ '' '' @ persona rv @
                '' - ERROR\<newline>\<newline>'' @
                review_dict.review rv @ ''\<newline>\<newline>'' @ ''---\<newline>\<newline>'')
     acc rs =
   acc @ concat (map result_block rs)"
  by (induction rs arbitrary: acc)
    (simp_all add: result_block_def success_block_def failure_block_def)

lemma format_reviews_layout:
  "format_reviews self rs st =
     (report_title @ report_summary (success_count rs) (failure_count rs) @
      concat (map result_block rs), st)"
  unfolding format_reviews_def Let_def foldl_blocks
  by (simp add: report_title_def report_summary_def success_count_def failure_count_def)

lemma block_in_report:
  assumes "r \<in> set rs"
  shows "sublist (result_block r) (pre @ concat (map result_block rs))"
proof -
  from assms obtain as bs where "rs = as @ r # bs" by (auto dest: split_list)
  then have "pre @ concat (map result_block rs) =
      (pre @ concat (map result_block as)) @ result_block r @ concat (map result_block bs)"
    by simp
  then show ?thesis by (metis sublist_appendI)
qed

lemma success_block_contents:
  "sublist (persona r) (success_block r)"
  "sublist (review_dict.focus r) (success_block r)"
  "sublist (review r) (success_block r)"
proof -
  have "success_block r = (''## '' @ robot @ '' '') @ persona r @
      ('' - '' @ review_dict.focus r @ ''\<newline>\<newline>'' @ review r @
       ''\<newline>\<newline>---\<newline>\<newline>'')"
    by (simp add: success_block_def)
  then show "sublist (persona r) (success_block r)" by (metis sublist_appendI)
  have "success_block r = (''## '' @ robot @ '' '' @ persona r @ '' - '') @ review_dict.focus r @
      (''\<newline>\<newline>'' @ review r @ ''\<newline>\<newline>---\<newline>\<newline>'')"
    by (simp add: success_block_def)
  then show "sublist (review_dict.focus r) (success_block r)" by (metis sublist_appendI)
  have "success_block r =
      (''## '' @ robot @ '' '' @ persona r @ '' - '' @ review_dict.focus r @ ''\<newline>\<newline>'') @
      review r @ ''\<newline>\<newline>---\<newline>\<newline>''"
    by (simp add: success_block_def)
  then show "sublist (review r) (success_block r)" by (metis sublist_appendI)
qed

lemma failure_block_contents:
  "sublist (persona r) (failure_block r)"
  "sublist (review r) (failure_block r)"
proof -
  have "failure_block r = (''## '' @ cross_mark @ '' '') @ persona r @
      ('' - ERROR\<newline>\<newline>'' @ review r @ ''\<newline>\<newline>---\<newline>\<newline>'')"
    by (simp add: failure_block_def)
  then show "sublist (persona r) (failure_block r)" by (metis sublist_appendI)
  have "failure_block r = (''## '' @ cross_mark @ '' '' @ persona r @ '' - ERROR\<newline>\<newline>'') @
      review r @ ''\<newline>\<newline>---\<newline>\<newline>''"
    by (simp add: failure_block_def)
  then show "sublist (review r) (failure_block r)" by (metis sublist_appendI)
qed

lemma block_markers:
  "prefix (''## '' @ robot) (success_block r)"
  "prefix (''## '' @ cross_mark) (failure_block r)"
  "\<not> prefix (''## '' @ robot) (failure_block r)"
  by (simp_all add: success_block_def failure_block_def robot_def cross_mark_def)

text \<open>
  C6, as the code has it: the report is the title, the summary with the number of reviews
  of status \<open>success\<close> and the number of status \<open>error\<close>, and then one block for each
  review in the order given. The block of a review with status \<open>success\<close> starts with the
  robot heading and holds the persona's name, the focus and the body. The block of any
  other review starts with the cross heading, which no success block does, and holds the
  persona's name, the word ERROR and the body; the focus is not written. A failed review
  followed by a successful one gives the counts one and one and the two blocks.
\<close>

theorem report_layout:
  "fst (format_reviews self rs st) =
     report_title @ report_summary (success_count rs) (failure_count rs) @
     concat (map result_block rs) \<and>
   (\<forall>r \<in> set rs.
      sublist (result_block r) (fst (format_reviews self rs st)) \<and>
      (if status r = ''success'' then
         result_block r = success_block r \<and>
         prefix (''## '' @ robot) (result_block r) \<and>
         sublist (persona r) (result_block r) \<and>
         sublist (review_dict.focus r) (result_block r) \<and>
         sublist (review r) (result_block r)
       else
         result_block r = failure_block r \<and>
         prefix (''## '' @ cross_mark) (result_block r) \<and>
         \<not> prefix (''## '' @ robot) (result_block r) \<and>
         sublist (persona r) (result_block r) \<and>
         sublist (review r) (result_block r))) \<and>
   (status a = ''error'' \<and> status b = ''success'' \<longrightarrow>
      fst (format_reviews self [a, b] st) =
        report_title @ report_summary 1 1 @ failure_block a @ success_block b)"
proof (intro conjI ballI impI)
  show "fst (format_reviews self rs st) =
     report_title @ report_summary (success_count rs) (failure_count rs) @
     concat (map result_block rs)"
    by (simp add: format_reviews_layout)
next
  fix r assume "r \<in> set rs"
  then show "sublist (result_block r) (fst (format_reviews self rs st))"
    using block_in_report
      [of r rs "report_title @ report_summary (success_count rs) (failure_count rs)"]
    by (simp add: format_reviews_layout)
next
  fix r
  show "if status r = ''success'' then
         result_block r = success_block r \<and>
         prefix (''## '' @ robot) (result_block r) \<and>
         sublist (persona r) (result_block r) \<and>
         sublist (review_dict.focus r) (result_block r) \<and>
         sublist (review r) (result_block r)
       else
         result_block r = failure_block r \<and>
         prefix (''## '' @ cross_mark) (result_block r) \<and>
         \<not> prefix (''## '' @ robot) (result_block r) \<and>
         sublist (persona r) (result_block r) \<and>
         sublist (review r) (result_block r)"
    using success_block_contents [of r] failure_block_contents [of r] block_markers [of r]
    by (simp add: result_block_def)
next
  assume "status a = ''error'' \<and> status b = ''success''"
  then show "fst (format_reviews self [a, b] st) =
        report_title @ report_summary 1 1 @ failure_block a @ success_block b"
    by (simp add: format_reviews_layout success_count_def failure_count_def result_block_def)
qed

theorem report_layout_witness:
  "status failed_review = ''error'' \<and> status passed_review = ''success'' \<and>
   fst (format_reviews (sample_engine []) [failed_review, passed_review] (start [])) =
     report_title @ report_summary 1 1 @ failure_block failed_review @
     success_block passed_review \<and>
   sublist (result_block passed_review)
     (fst (format_reviews (sample_engine []) [failed_review, passed_review] (start [])))"
proof -
  have st: "status failed_review = ''error''" "status passed_review = ''success''"
    by (simp_all add: failed_review_def passed_review_def)
  note layout = report_layout
    [of "sample_engine []" "[failed_review, passed_review]" "start []"
        failed_review passed_review]
  from layout st have both:
    "fst (format_reviews (sample_engine []) [failed_review, passed_review] (start [])) =
       report_title @ report_summary 1 1 @ failure_block failed_review @
       success_block passed_review"
    by blast
  from layout have "\<forall>r \<in> set [failed_review, passed_review].
      sublist (result_block r)
        (fst (format_reviews (sample_engine []) [failed_review, passed_review] (start [])))"
    by blast
  then have shown: "sublist (result_block passed_review)
      (fst (format_reviews (sample_engine []) [failed_review, passed_review] (start [])))"
    by simp
  from st both shown show ?thesis by blast
qed

text \<open>
  The claim as stated fails on a failed review: its focus is nowhere in the report.
\<close>

theorem failure_block_omits_focus:
  "\<not> sublist (review_dict.focus failed_review)
       (fst (format_reviews (sample_engine []) [failed_review] (start [])))"
  by code_simp

text \<open>
  C7: the report is a function of the list of reviews alone. \<open>format_reviews\<close> gives the
  same string for any engine and in any world, so rendering the same list twice gives
  the same bytes, and it leaves the world as it found it: nothing is printed and the
  endpoint is not called.
\<close>

theorem format_reviews_pure:
  "format_reviews self rs st = (fst (format_reviews self' rs st'), st)"
  by (simp add: format_reviews_def Let_def)

end
